theory Spec2Isabelle
  imports Main "HOL-Library.AList"
begin

section \<open>Python values, exceptions and the observer's state dictionary\<close>

text \<open>
  The observer of \<^verbatim>\<open>lighthouse/observers/stateful_log_pattern.py\<close> keeps its state in a
  dictionary with the keys \<^verbatim>\<open>fingerprint\<close>, \<^verbatim>\<open>offset\<close> and \<^verbatim>\<open>rotated_fingerprint\<close>.
  The values that flow through it are \<^verbatim>\<open>None\<close>, integers, the tuples returned by
  \<^verbatim>\<open>get_file_fingerprint\<close> and the lists that \<^verbatim>\<open>json.load\<close> returns for a saved tuple.
  On these values Python's \<^verbatim>\<open>==\<close> is structural equality; in particular a list never
  equals a tuple. Floats, booleans, strings and nested containers inside the state
  dictionary are outside the model.
\<close>

datatype pyval = PNone | PInt int | PTuple "int list" | PList "int list"

datatype pyexn =
  OSError | ValueError | TypeError | JSONDecodeError | KeyError | UnicodeDecodeError | RegexError

text \<open>
  A Python \<^verbatim>\<open>dict\<close> keeps insertion order, and \<^verbatim>\<open>d[k] = v\<close> overwrites in place or
  appends: this is \<^const>\<open>AList.update\<close> on an association list.
\<close>

type_synonym state = "(string \<times> pyval) list"

definition dict_get :: "state \<Rightarrow> string \<Rightarrow> pyval" where
  \<comment> \<open>\<^verbatim>\<open>state.get(key)\<close>\<close>
  "dict_get st k = (case map_of st k of None \<Rightarrow> PNone | Some v \<Rightarrow> v)"

definition dict_get_default :: "state \<Rightarrow> string \<Rightarrow> pyval \<Rightarrow> pyval" where
  \<comment> \<open>\<^verbatim>\<open>state.get(key, default)\<close>\<close>
  "dict_get_default st k d = (case map_of st k of None \<Rightarrow> d | Some v \<Rightarrow> v)"

section \<open>The file system seen by one poll\<close>

text \<open>
  A log file has the numbers the platform identifies it by (device and inode on POSIX;
  volume serial number and the two halves of the file index on Windows), its bytes, and
  two ways of misbehaving: the identity query may raise, and opening or reading may raise.
  File contents are taken to be ASCII, where decoding with \<^verbatim>\<open>errors='ignore'\<close> is the
  identity and a character is a byte.
\<close>

datatype fault = Healthy | OpenFails | ReadFails

record fnode =
  file_id :: "int list"
  content :: string
  fault :: fault
  id_fault :: bool

datatype platform = Posix | Windows bool | Unsupported

text \<open>
  A state file is described by what \<^verbatim>\<open>open\<close> followed by \<^verbatim>\<open>json.load\<close> does on it:
  \<^verbatim>\<open>open\<close> raises, the bytes are not UTF-8, the text is not JSON, or a JSON document is
  returned. Of the documents that are not objects only \<^verbatim>\<open>null\<close> is modelled.
\<close>

datatype json = JObject state | JNull

datatype sfile = Unopenable | Undecodable | Malformed | Document json

record world =
  platform :: platform
  files :: "string \<rightharpoonup> fnode"
  state_files :: "string \<rightharpoonup> sfile"
  state_dir_writable :: bool

subsection \<open>\<^verbatim>\<open>lighthouse/platform.py\<close>: get_file_fingerprint\<close>

definition get_file_fingerprint :: "world \<Rightarrow> string \<Rightarrow> pyval" where
  "get_file_fingerprint w path =
     (case files w path of
        None \<Rightarrow> PNone
      | Some f \<Rightarrow>
          (case platform w of
             Windows win32file \<Rightarrow>
               if \<not> win32file then PNone
               else if id_fault f then PNone
               else PTuple (file_id f)
           | Posix \<Rightarrow> if id_fault f then PNone else PTuple (file_id f)
           | Unsupported \<Rightarrow> PNone))"

section \<open>Rotation handlers\<close>

definition no_rotation_handle :: "world \<Rightarrow> string \<Rightarrow> state \<Rightarrow> pyexn + int" where
  \<comment> \<open>\<^verbatim>\<open>NoRotationHandler.handle\<close>: \<^verbatim>\<open>stat\<close> comes first, so a missing file gives 0 before
      the offset is compared; comparing an integer with \<^verbatim>\<open>None\<close>, a list or a tuple raises.\<close>
  "no_rotation_handle w log_file st =
     (let offset = dict_get_default st ''offset'' (PInt 0) in
      case files w log_file of
        None \<Rightarrow> Inr 0
      | Some f \<Rightarrow>
          (case offset of
             PInt n \<Rightarrow> if int (length (content f)) < n then Inr 0 else Inr n
           | _ \<Rightarrow> Inl TypeError))"

definition copytruncate_handle :: "world \<Rightarrow> string \<Rightarrow> state \<Rightarrow> int" where
  \<comment> \<open>\<^verbatim>\<open>CopytruncateRotationHandler.handle\<close>\<close>
  "copytruncate_handle w log_file st = 0"

definition move_create_handle :: "world \<Rightarrow> string \<Rightarrow> state \<Rightarrow> int \<times> state" where
  \<comment> \<open>\<^verbatim>\<open>MoveCreateRotationHandler.handle\<close>: the state is updated in place\<close>
  "move_create_handle w log_file st =
     (let current_fingerprint = get_file_fingerprint w log_file
      in (0, AList.update ''fingerprint'' current_fingerprint st))"

section \<open>RotationDetector\<close>

definition current_rotated :: "world \<Rightarrow> string \<Rightarrow> pyval" where
  \<comment> \<open>lines 111 to 113 of \<^verbatim>\<open>detect_and_handle\<close>\<close>
  "current_rotated w rotated_log_file =
     (case files w rotated_log_file of
        None \<Rightarrow> PNone
      | Some _ \<Rightarrow> get_file_fingerprint w rotated_log_file)"

definition detect_and_handle ::
  "world \<Rightarrow> string \<Rightarrow> string \<Rightarrow> state \<Rightarrow> (pyexn + int) \<times> state" where
  \<comment> \<open>returns the offset (or the exception raised) and the state dictionary as mutated\<close>
  "detect_and_handle w log_file rotated_log_file st =
     (let current_fingerprint = get_file_fingerprint w log_file;
          stored_fingerprint = dict_get st ''fingerprint'';
          stored_rotated_fingerprint = dict_get st ''rotated_fingerprint'';
          current_rotated_fingerprint = current_rotated w rotated_log_file;
          st1 = AList.update ''rotated_fingerprint'' current_rotated_fingerprint st
      in if stored_fingerprint = current_fingerprint then
           if stored_rotated_fingerprint \<noteq> current_rotated_fingerprint then
             (Inr (copytruncate_handle w log_file st1), st1)
           else (no_rotation_handle w log_file st1, st1)
         else
           (case move_create_handle w log_file st1 of (offset, st2) \<Rightarrow> (Inr offset, st2)))"

text \<open>
  The branch of \<^const>\<open>detect_and_handle\<close> that a poll takes, as a value: the same two
  comparisons, in the same order.
\<close>

datatype rotation = NoRotation | Copytruncate | MoveCreate

definition rotation_branch :: "world \<Rightarrow> string \<Rightarrow> string \<Rightarrow> state \<Rightarrow> rotation" where
  "rotation_branch w log_file rotated_log_file st =
     (if dict_get st ''fingerprint'' = get_file_fingerprint w log_file then
        if dict_get st ''rotated_fingerprint'' \<noteq> current_rotated w rotated_log_file
        then Copytruncate else NoRotation
      else MoveCreate)"

section \<open>Reading the new lines\<close>

text \<open>
  Text mode with universal newlines: a line ends at \<^verbatim>\<open>\n\<close>, \<^verbatim>\<open>\r\n\<close> or \<^verbatim>\<open>\r\<close>, each
  returned as \<^verbatim>\<open>\n\<close>; a last line without a terminator is returned as it is.
\<close>

definition LF :: char where "LF = CHR 0x0A"
definition CR :: char where "CR = CHR 0x0D"

fun skip_lf :: "string \<Rightarrow> string" where
  "skip_lf [] = []"
| "skip_lf (c # cs) = (if c = LF then cs else c # cs)"

function split_lines :: "string \<Rightarrow> string \<Rightarrow> string list" where
  "split_lines cur [] = (if cur = [] then [] else [cur])"
| "split_lines cur (c # cs) =
     (if c = LF then (cur @ [LF]) # split_lines [] cs
      else if c = CR then (cur @ [LF]) # split_lines [] (skip_lf cs)
      else split_lines (cur @ [c]) cs)"
  by pat_completeness auto
termination
proof (relation "measure (\<lambda>(cur, s). length s)")
  fix cur :: string and c :: char and cs :: string
  have "length (skip_lf cs) \<le> length cs" by (cases cs) auto
  then show "((([]::string), skip_lf cs), (cur, c # cs)) \<in> measure (\<lambda>(cur, s). length s)"
    by simp
qed auto

record handle =
  h_data :: string
  h_fault :: fault
  h_pos :: nat

definition open_file :: "fnode \<Rightarrow> pyexn + handle" where
  "open_file f =
     (if fault f = OpenFails then Inl OSError
      else Inr \<lparr>h_data = content f, h_fault = fault f, h_pos = 0\<rparr>)"

definition f_seek :: "handle \<Rightarrow> int \<Rightarrow> pyexn + handle" where
  \<comment> \<open>a negative position raises; a position past the end is accepted as it is\<close>
  "f_seek h offset = (if offset < 0 then Inl ValueError else Inr (h\<lparr>h_pos := nat offset\<rparr>))"

definition f_readlines :: "handle \<Rightarrow> pyexn + (string list \<times> handle)" where
  "f_readlines h =
     (if h_fault h = ReadFails then Inl OSError
      else Inr (split_lines [] (drop (h_pos h) (h_data h)),
                h\<lparr>h_pos := max (h_pos h) (length (h_data h))\<rparr>))"

definition f_tell :: "handle \<Rightarrow> int" where
  "f_tell h = int (h_pos h)"

definition read_new_lines :: "fnode \<Rightarrow> int \<Rightarrow> pyexn + (string list \<times> int)" where
  \<comment> \<open>the body of the \<^verbatim>\<open>try\<close> in \<^verbatim>\<open>observe\<close>: open, seek, readlines, tell\<close>
  "read_new_lines f offset =
     (case open_file f of
        Inl e \<Rightarrow> Inl e
      | Inr h0 \<Rightarrow>
          (case f_seek h0 offset of
             Inl e \<Rightarrow> Inl e
           | Inr h1 \<Rightarrow>
               (case f_readlines h1 of
                  Inl e \<Rightarrow> Inl e
                | Inr (lines, h2) \<Rightarrow> Inr (lines, f_tell h2))))"

section \<open>Matching\<close>

definition py_isspace :: "char \<Rightarrow> bool" where
  \<comment> \<open>the ASCII characters for which \<^verbatim>\<open>str.isspace\<close> holds\<close>
  "py_isspace c = (let n = (of_char c :: nat) in (9 \<le> n \<and> n \<le> 13) \<or> (28 \<le> n \<and> n \<le> 32))"

definition strip :: "string \<Rightarrow> string" where
  "strip s = rev (dropWhile py_isspace (rev (dropWhile py_isspace s)))"

text \<open>
  \<^verbatim>\<open>re.search\<close> is a parameter: it answers whether the pattern matches somewhere in the
  line, or raises for a pattern that does not compile (\<^const>\<open>None\<close>).
\<close>

type_synonym search = "string \<Rightarrow> string \<Rightarrow> bool option"

fun any_pattern :: "search \<Rightarrow> string list \<Rightarrow> string \<Rightarrow> pyexn + bool" where
  \<comment> \<open>the inner loop: stop at the first pattern that matches\<close>
  "any_pattern search [] line = Inr False"
| "any_pattern search (pattern # ps) line =
     (case search pattern line of
        None \<Rightarrow> Inl RegexError
      | Some True \<Rightarrow> Inr True
      | Some False \<Rightarrow> any_pattern search ps line)"

fun match_lines :: "search \<Rightarrow> string list \<Rightarrow> string list \<Rightarrow> string list \<Rightarrow> pyexn + string list" where
  \<comment> \<open>the outer loop, with \<^verbatim>\<open>matched_lines\<close> as the accumulator\<close>
  "match_lines search patterns matched_lines [] = Inr matched_lines"
| "match_lines search patterns matched_lines (line # lines) =
     (case any_pattern search patterns line of
        Inl e \<Rightarrow> Inl e
      | Inr True \<Rightarrow> match_lines search patterns (matched_lines @ [strip line]) lines
      | Inr False \<Rightarrow> match_lines search patterns matched_lines lines)"

section \<open>The observer\<close>

datatype mval = MStr string | MInt int | MLines "string list" | MErrText pyexn

text \<open>
  \<^const>\<open>MErrText\<close> \<open>e\<close> stands for \<^verbatim>\<open>str(e)\<close>. The timestamp of an observation is the
  wall clock and is left out.
\<close>

record observation =
  ovalue :: bool
  metadata :: "(string \<times> mval) list"

record config =
  c_name :: string
  c_state_dir :: string
  c_log_file :: string
  c_patterns :: "string list"

record observer =
  log_file :: string
  patterns :: "string list"
  state_file :: string
  state :: state
  rotated_log_file :: string

definition default_state :: state where
  "default_state = [(''fingerprint'', PNone), (''offset'', PInt 0), (''rotated_fingerprint'', PNone)]"

definition json_load :: "sfile \<Rightarrow> pyexn + json" where
  \<comment> \<open>\<^verbatim>\<open>open\<close> followed by \<^verbatim>\<open>json.load\<close>\<close>
  "json_load s =
     (case s of
        Unopenable \<Rightarrow> Inl OSError
      | Undecodable \<Rightarrow> Inl UnicodeDecodeError
      | Malformed \<Rightarrow> Inl JSONDecodeError
      | Document j \<Rightarrow> Inr j)"

definition load_body :: "sfile \<Rightarrow> pyexn + state" where
  \<comment> \<open>the body of the \<^verbatim>\<open>try\<close> in \<^verbatim>\<open>_load_state\<close>; \<^verbatim>\<open>in\<close> on \<^verbatim>\<open>None\<close> raises TypeError\<close>
  "load_body s =
     (case json_load s of
        Inl e \<Rightarrow> Inl e
      | Inr JNull \<Rightarrow> Inl TypeError
      | Inr (JObject st) \<Rightarrow>
          Inr (if map_of st ''rotated_fingerprint'' = None
               then AList.update ''rotated_fingerprint'' PNone st else st))"

definition load_state :: "world \<Rightarrow> string \<Rightarrow> pyexn + state" where
  \<comment> \<open>\<^verbatim>\<open>Observer._load_state\<close>: only JSONDecodeError and KeyError are caught\<close>
  "load_state w sf =
     (case state_files w sf of
        None \<Rightarrow> Inr default_state
      | Some s \<Rightarrow>
          (case load_body s of
             Inl e \<Rightarrow> if e = JSONDecodeError \<or> e = KeyError then Inr default_state else Inl e
           | Inr st \<Rightarrow> Inr st))"

definition to_json :: "pyval \<Rightarrow> pyval" where
  \<comment> \<open>\<^verbatim>\<open>json.dump\<close> writes a tuple as an array, which loads as a list\<close>
  "to_json v = (case v of PTuple xs \<Rightarrow> PList xs | _ \<Rightarrow> v)"

definition save_state :: "world \<Rightarrow> string \<Rightarrow> state \<Rightarrow> world" where
  \<comment> \<open>\<^verbatim>\<open>Observer._save_state\<close>: a failure is logged and swallowed\<close>
  "save_state w sf st =
     (if state_dir_writable w
      then w\<lparr>state_files := (state_files w)(sf \<mapsto> Document (JObject (map (\<lambda>(k, v). (k, to_json v)) st)))\<rparr>
      else w)"

definition new_observer :: "config \<Rightarrow> world \<Rightarrow> pyexn + observer" where
  \<comment> \<open>\<^verbatim>\<open>Observer.__init__\<close>. The configured paths are taken to be in the form
      \<^verbatim>\<open>pathlib.Path\<close> prints them (no \<^verbatim>\<open>//\<close>, no \<^verbatim>\<open>/./\<close>, no trailing \<^verbatim>\<open>/\<close>), on which
      joining paths is joining strings.\<close>
  "new_observer c w =
     (let sf = c_state_dir c @ ''/'' @ c_name c @ ''.state.json'' in
      case load_state w sf of
        Inl e \<Rightarrow> Inl e
      | Inr st \<Rightarrow>
          Inr \<lparr>log_file = c_log_file c, patterns = c_patterns c, state_file = sf,
               state = st, rotated_log_file = c_log_file c @ ''.1''\<rparr>)"

definition observe :: "search \<Rightarrow> observer \<Rightarrow> world \<Rightarrow> (pyexn + observation) \<times> observer \<times> world" where
  \<comment> \<open>\<^verbatim>\<open>Observer.observe\<close>: the result or the exception that escapes, the observer with its
      state dictionary as mutated, and the file system after the call\<close>
  "observe search ob w =
     (case files w (log_file ob) of
        None \<Rightarrow>
          (Inr \<lparr>ovalue = False, metadata = [(''status'', MStr ''file not found'')]\<rparr>, ob, w)
      | Some f \<Rightarrow>
          (case detect_and_handle w (log_file ob) (rotated_log_file ob) (state ob) of
             (Inl e, st1) \<Rightarrow> (Inl e, ob\<lparr>state := st1\<rparr>, w)
           | (Inr offset, st1) \<Rightarrow>
               (case read_new_lines f offset of
                  Inl e \<Rightarrow>
                    (Inr \<lparr>ovalue = False, metadata = [(''error'', MErrText e)]\<rparr>,
                     ob\<lparr>state := st1\<rparr>, w)
                | Inr (lines, new_offset) \<Rightarrow>
                    (case match_lines search (patterns ob) [] lines of
                       Inl e \<Rightarrow> (Inl e, ob\<lparr>state := st1\<rparr>, w)
                     | Inr matched_lines \<Rightarrow>
                         (let st2 = AList.update ''offset'' (PInt new_offset) st1;
                              w2 = save_state w (state_file ob) st2
                          in if matched_lines \<noteq> [] then
                               (Inr \<lparr>ovalue = True,
                                     metadata = [(''matched_lines'', MLines matched_lines),
                                                 (''log_file'', MStr (log_file ob))]\<rparr>,
                                ob\<lparr>state := st2\<rparr>, w2)
                             else
                               (Inr \<lparr>ovalue = False,
                                     metadata = [(''lines_read'', MInt (int (length lines)))]\<rparr>,
                                ob\<lparr>state := st2\<rparr>, w2))))))"

section \<open>Concrete files, states and observers\<close>

text \<open>
  A matcher for patterns without metacharacters, on which \<^verbatim>\<open>re.search\<close> is the
  test for a contiguous occurrence.
\<close>

fun starts_with :: "string \<Rightarrow> string \<Rightarrow> bool" where
  "starts_with [] line = True"
| "starts_with (p # ps) [] = False"
| "starts_with (p # ps) (c # cs) = (p = c \<and> starts_with ps cs)"

fun literal_search :: search where
  "literal_search pattern [] = Some (pattern = [])"
| "literal_search pattern (c # cs) =
     (if starts_with pattern (c # cs) then Some True else literal_search pattern cs)"

definition plain_file :: "int list \<Rightarrow> string \<Rightarrow> fnode" where
  "plain_file i s = \<lparr>file_id = i, content = s, fault = Healthy, id_fault = False\<rparr>"

definition posix_world :: "(string \<rightharpoonup> fnode) \<Rightarrow> world" where
  "posix_world fs =
     \<lparr>platform = Posix, files = fs, state_files = Map.empty, state_dir_writable = True\<rparr>"

definition app_log :: string where "app_log = ''/var/log/app.log''"

definition app_log_1 :: string where "app_log_1 = ''/var/log/app.log.1''"

definition app_state_file :: string where
  "app_state_file = ''/var/lib/lighthouse/app.state.json''"

definition three_lines :: string where
  "three_lines = ''line 1\<newline>ERROR: line 2\<newline>line 3\<newline>''"

definition app_config :: config where
  "app_config = \<lparr>c_name = ''app'', c_state_dir = ''/var/lib/lighthouse'',
                  c_log_file = app_log, c_patterns = [''ERROR'']\<rparr>"

definition fresh_world :: world where
  "fresh_world = posix_world [app_log \<mapsto> plain_file [1, 100] three_lines]"


definition tracked_state :: "int \<Rightarrow> pyval \<Rightarrow> state" where
  \<comment> \<open>the state of an observer that has followed the file with identity (1, 100)\<close>
  "tracked_state off rotated =
     [(''fingerprint'', PTuple [1, 100]), (''offset'', PInt off),
      (''rotated_fingerprint'', rotated)]"

definition fresh_observer :: observer where
  "fresh_observer =
     \<lparr>log_file = app_log, patterns = [''ERROR''], state_file = app_state_file,
      state = default_state, rotated_log_file = app_log_1\<rparr>"

definition tracking_observer :: "int \<Rightarrow> observer" where
  \<comment> \<open>the observer after it has read the file with identity (1, 100) up to \<open>off\<close>\<close>
  "tracking_observer off = fresh_observer\<lparr>state := tracked_state off PNone\<rparr>"

definition unreadable_world :: world where
  "unreadable_world =
     posix_world [app_log \<mapsto> (plain_file [1, 100] three_lines)\<lparr>fault := OpenFails\<rparr>]"

definition padded_world :: world where
  "padded_world = posix_world [app_log \<mapsto> plain_file [1, 100] ''  ERROR: disk full \<newline>'']"

definition state_file_world :: "sfile \<Rightarrow> world" where
  "state_file_world s =
     \<lparr>platform = Posix, files = Map.empty, state_files = [app_state_file \<mapsto> s],
      state_dir_writable = True\<rparr>"

definition old_format_state :: state where
  \<comment> \<open>a state file written before the rotated fingerprint was tracked\<close>
  "old_format_state = [(''fingerprint'', PList [1, 100]), (''offset'', PInt 28)]"

definition append_text :: "world \<Rightarrow> string \<Rightarrow> string \<Rightarrow> world" where
  \<comment> \<open>another process appends to a log file\<close>
  "append_text w path s =
     (case files w path of
        None \<Rightarrow> w
      | Some f \<Rightarrow> w\<lparr>files := (files w)(path \<mapsto> f\<lparr>content := content f @ s\<rparr>)\<rparr>)"

definition first_poll :: "(pyexn + observation) \<times> observer \<times> world" where
  "first_poll = observe literal_search fresh_observer fresh_world"

definition second_poll :: "(pyexn + observation) \<times> observer \<times> world" where
  "second_poll =
     (case first_poll of
        (r1, ob1, w1) \<Rightarrow>
          observe literal_search ob1 (append_text w1 app_log ''ERROR: line 4\<newline>''))"

definition restarted_poll :: "(pyexn + observation) \<times> observer \<times> world" where
  \<comment> \<open>as \<^const>\<open>second_poll\<close>, but by an observer created anew from the saved state\<close>
  "restarted_poll =
     (case first_poll of
        (r1, ob1, w1) \<Rightarrow>
          (case new_observer app_config w1 of
             Inl e \<Rightarrow> (Inl e, ob1, w1)
           | Inr ob \<Rightarrow>
               observe literal_search ob (append_text w1 app_log ''ERROR: line 4\<newline>'')))"

definition identity_numbers :: "pyval \<Rightarrow> int list option" where
  \<comment> \<open>the file a stored or current fingerprint refers to, whatever container holds the
      numbers: \<^verbatim>\<open>json\<close> hands a saved tuple back as a list\<close>
  "identity_numbers v =
     (case v of PTuple xs \<Rightarrow> Some xs | PList xs \<Rightarrow> Some xs | _ \<Rightarrow> None)"

definition saved_world :: world where
  \<comment> \<open>the file system as the first poll of the concrete scenario leaves it\<close>
  "saved_world = snd (snd first_poll)"

definition reloaded_state :: state where
  \<comment> \<open>what \<^verbatim>\<open>_load_state\<close> reads from the state file the first poll saved\<close>
  "reloaded_state =
     [(''fingerprint'', PList [1, 100]), (''offset'', PInt 28), (''rotated_fingerprint'', PNone)]"



section \<open>Auxiliary facts\<close>

lemma dict_get_update_same: "dict_get (AList.update k v st) k = v"
  by (simp add: dict_get_def update_conv')

lemma dict_get_update_other: "k' \<noteq> k \<Longrightarrow> dict_get (AList.update k v st) k' = dict_get st k'"
  by (simp add: dict_get_def update_conv')

lemma dict_get_default_update_other:
  "k' \<noteq> k \<Longrightarrow> dict_get_default (AList.update k v st) k' d = dict_get_default st k' d"
  by (simp add: dict_get_default_def update_conv')

text \<open>\<^const>\<open>rotation_branch\<close> names the branch that \<^const>\<open>detect_and_handle\<close> takes.\<close>

lemma detect_and_handle_branch:
  "detect_and_handle w lf rf st =
     (let st1 = AList.update ''rotated_fingerprint'' (current_rotated w rf) st in
      case rotation_branch w lf rf st of
        Copytruncate \<Rightarrow> (Inr (copytruncate_handle w lf st1), st1)
      | NoRotation \<Rightarrow> (no_rotation_handle w lf st1, st1)
      | MoveCreate \<Rightarrow>
          (Inr (fst (move_create_handle w lf st1)), snd (move_create_handle w lf st1)))"
  by (simp add: detect_and_handle_def rotation_branch_def Let_def split: prod.splits)

lemma new_observer_fresh: "new_observer app_config fresh_world = Inr fresh_observer"
  by (simp add: new_observer_def app_config_def fresh_world_def posix_world_def load_state_def
      fresh_observer_def app_log_1_def app_log_def app_state_file_def)

lemma fresh_world_app_log: "files fresh_world app_log = Some (plain_file [1, 100] three_lines)"
  by (simp add: fresh_world_def posix_world_def)

lemma fresh_world_fingerprint: "get_file_fingerprint fresh_world app_log = PTuple [1, 100]"
  by (simp add: get_file_fingerprint_def fresh_world_def posix_world_def plain_file_def)

lemma fresh_world_rotated: "current_rotated fresh_world app_log_1 = PNone"
  by (simp add: current_rotated_def fresh_world_def posix_world_def app_log_def app_log_1_def)




lemma tracked_state_get:
  "dict_get (tracked_state off r) ''fingerprint'' = PTuple [1, 100]"
  "dict_get (tracked_state off r) ''rotated_fingerprint'' = r"
  "dict_get_default (tracked_state off r) ''offset'' (PInt 0) = PInt off"
  by (simp_all add: dict_get_def dict_get_default_def tracked_state_def)

lemma length_three_lines: "length three_lines = 28"
  by (simp add: three_lines_def)

section \<open>The rotation classifier\<close>

text \<open>
  C1, as the specification states it: on the very first poll of a target (stored main and
  rotated identity both \<^verbatim>\<open>None\<close>) with the main file present, the classifier takes the
  "no rotation" branch and no other. On a POSIX system the current identity of an existing
  file is a tuple, which is not equal to \<^verbatim>\<open>None\<close>, so the poll takes the move/create
  branch.
\<close>

theorem first_poll_takes_move_create:
  "dict_get default_state ''fingerprint'' = PNone
   \<and> dict_get default_state ''rotated_fingerprint'' = PNone
   \<and> files fresh_world app_log \<noteq> None
   \<and> rotation_branch fresh_world app_log app_log_1 default_state = MoveCreate
   \<and> rotation_branch fresh_world app_log app_log_1 default_state \<noteq> NoRotation"
  by (simp add: dict_get_def default_state_def fresh_world_def posix_world_def plain_file_def
      rotation_branch_def get_file_fingerprint_def)

text \<open>
  C1, amended: on the very first poll (both stored identities \<^verbatim>\<open>None\<close>, stored offset 0)
  with the main file present, the classifier returns offset 0. It takes the move/create
  branch whenever the current identity of the main file is not \<^verbatim>\<open>None\<close>, and the "no
  rotation" branch exactly when the current identities of the main file and of its rotated
  sibling are both \<^verbatim>\<open>None\<close>.
\<close>

theorem first_poll_offset_zero:
  assumes "dict_get st ''fingerprint'' = PNone"
    and "dict_get st ''rotated_fingerprint'' = PNone"
    and "dict_get_default st ''offset'' (PInt 0) = PInt 0"
    and "files w lf = Some f"
  shows "fst (detect_and_handle w lf rf st) = Inr 0
       \<and> (get_file_fingerprint w lf \<noteq> PNone \<longrightarrow> rotation_branch w lf rf st = MoveCreate)
       \<and> (rotation_branch w lf rf st = NoRotation
            \<longleftrightarrow> get_file_fingerprint w lf = PNone \<and> current_rotated w rf = PNone)"
proof -
  have off: "no_rotation_handle w lf (AList.update ''rotated_fingerprint'' v st) = Inr 0" for v
    using assms(3,4)
    by (simp add: no_rotation_handle_def dict_get_default_update_other)
  have a: "fst (detect_and_handle w lf rf st) = Inr 0"
    by (cases "rotation_branch w lf rf st")
       (simp_all add: detect_and_handle_branch Let_def off copytruncate_handle_def
          move_create_handle_def)
  have b: "get_file_fingerprint w lf \<noteq> PNone \<longrightarrow> rotation_branch w lf rf st = MoveCreate"
    using assms(1) by (auto simp: rotation_branch_def)
  have c: "rotation_branch w lf rf st = NoRotation
            \<longleftrightarrow> get_file_fingerprint w lf = PNone \<and> current_rotated w rf = PNone"
    using assms(1,2) by (auto simp: rotation_branch_def)
  from a b c show ?thesis by blast
qed

theorem first_poll_offset_zero_witness:
  "dict_get default_state ''fingerprint'' = PNone
   \<and> dict_get default_state ''rotated_fingerprint'' = PNone
   \<and> dict_get_default default_state ''offset'' (PInt 0) = PInt 0
   \<and> files fresh_world app_log = Some (plain_file [1, 100] three_lines)
   \<and> get_file_fingerprint fresh_world app_log \<noteq> PNone
   \<and> fst (detect_and_handle fresh_world app_log app_log_1 default_state) = Inr 0
   \<and> rotation_branch fresh_world app_log app_log_1 default_state = MoveCreate"
proof -
  have h1: "dict_get default_state ''fingerprint'' = PNone"
    by (simp add: dict_get_def default_state_def)
  have h2: "dict_get default_state ''rotated_fingerprint'' = PNone"
    by (simp add: dict_get_def default_state_def)
  have h3: "dict_get_default default_state ''offset'' (PInt 0) = PInt 0"
    by (simp add: dict_get_default_def default_state_def)
  have h5: "get_file_fingerprint fresh_world app_log \<noteq> PNone"
    by (simp add: fresh_world_fingerprint)
  from first_poll_offset_zero [OF h1 h2 h3 fresh_world_app_log, of app_log_1]
    h1 h2 h3 h5 fresh_world_app_log
  show ?thesis by blast
qed



text \<open>
  C3: whenever the stored main identity differs from the current identity of the main
  file, whatever the rotated sibling is, the classifier returns offset 0 and the state's
  main identity becomes the current one (move/create).
\<close>

theorem move_create_resets_and_rebinds:
  assumes "dict_get st ''fingerprint'' \<noteq> get_file_fingerprint w lf"
  shows "fst (detect_and_handle w lf rf st) = Inr 0
       \<and> dict_get (snd (detect_and_handle w lf rf st)) ''fingerprint''
           = get_file_fingerprint w lf"
  using assms
  by (simp add: detect_and_handle_def Let_def move_create_handle_def dict_get_update_same)

theorem move_create_resets_and_rebinds_witness:
  "dict_get (tracked_state 28 PNone) ''fingerprint''
     \<noteq> get_file_fingerprint (posix_world [app_log \<mapsto> plain_file [1, 101] ''new\<newline>'']) app_log
   \<and> fst (detect_and_handle (posix_world [app_log \<mapsto> plain_file [1, 101] ''new\<newline>''])
            app_log app_log_1 (tracked_state 28 PNone)) = Inr 0
   \<and> dict_get (snd (detect_and_handle (posix_world [app_log \<mapsto> plain_file [1, 101] ''new\<newline>''])
                     app_log app_log_1 (tracked_state 28 PNone))) ''fingerprint''
       = PTuple [1, 101]"
proof -
  have fp: "get_file_fingerprint (posix_world [app_log \<mapsto> plain_file [1, 101] ''new\<newline>'']) app_log
              = PTuple [1, 101]"
    by (simp add: get_file_fingerprint_def posix_world_def plain_file_def)
  have h: "dict_get (tracked_state 28 PNone) ''fingerprint''
             \<noteq> get_file_fingerprint (posix_world [app_log \<mapsto> plain_file [1, 101] ''new\<newline>'']) app_log"
    by (simp add: tracked_state_get fp)
  from move_create_resets_and_rebinds [OF h, of app_log_1] h fp
  show ?thesis by simp
qed

text \<open>
  While the state dictionary holds the fingerprint as the tuple that
  \<^verbatim>\<open>get_file_fingerprint\<close> returned, that is, within one process, the "no rotation"
  branch behaves as C4 says: with the main file present and an integer stored offset, the
  classifier returns 0 if the file is shorter than the stored offset, and the stored
  offset otherwise.
\<close>

lemma no_rotation_branch_offset:
  assumes "rotation_branch w lf rf st = NoRotation"
    and "files w lf = Some f"
    and "dict_get_default st ''offset'' (PInt 0) = PInt n"
  shows "fst (detect_and_handle w lf rf st)
           = Inr (if int (length (content f)) < n then 0 else n)"
  using assms
  by (simp add: detect_and_handle_branch Let_def no_rotation_handle_def
      dict_get_default_update_other)

lemma no_rotation_branch_offset_example:
  "rotation_branch fresh_world app_log app_log_1 (tracked_state 40 PNone) = NoRotation
   \<and> rotation_branch fresh_world app_log app_log_1 (tracked_state 5 PNone) = NoRotation
   \<and> files fresh_world app_log = Some (plain_file [1, 100] three_lines)
   \<and> length (content (plain_file [1, 100] three_lines)) = 28
   \<and> fst (detect_and_handle fresh_world app_log app_log_1 (tracked_state 40 PNone)) = Inr 0
   \<and> fst (detect_and_handle fresh_world app_log app_log_1 (tracked_state 5 PNone)) = Inr 5"
proof -
  have b: "rotation_branch fresh_world app_log app_log_1 (tracked_state off PNone) = NoRotation"
    for off
    by (simp add: rotation_branch_def tracked_state_get fresh_world_fingerprint
        fresh_world_rotated)
  have len: "length (content (plain_file [1, 100] three_lines)) = 28"
    by (simp add: plain_file_def length_three_lines)
  have o: "dict_get_default (tracked_state off PNone) ''offset'' (PInt 0) = PInt off" for off
    by (simp add: tracked_state_get)
  from no_rotation_branch_offset [OF b fresh_world_app_log o, of 40]
       no_rotation_branch_offset [OF b fresh_world_app_log o, of 5] b len fresh_world_app_log
  show ?thesis by simp
qed

text \<open>
  C4: when both identities are unchanged, the classifier returns 0 if the main file is
  shorter than the stored offset, and the stored offset otherwise. The code does not do
  this for a state read back from the state file. The first poll of the concrete scenario
  saves the fingerprint (1, 100) and the offset 28; \<^verbatim>\<open>_load_state\<close> returns the
  fingerprint as the list [1, 100]. The main file is the same file, with the same 28
  bytes, and there is no rotated sibling before or after, so both identities are
  unchanged and the file is not shorter than the offset. But the list is not equal to the
  tuple of the current identity: the classifier takes the move/create branch and returns
  0, not 28.
\<close>

theorem reloaded_state_resets_offset:
  "load_state saved_world app_state_file = Inr reloaded_state
   \<and> files saved_world app_log = Some (plain_file [1, 100] three_lines)
   \<and> identity_numbers (dict_get reloaded_state ''fingerprint'') = Some [1, 100]
   \<and> identity_numbers (get_file_fingerprint saved_world app_log) = Some [1, 100]
   \<and> dict_get reloaded_state ''rotated_fingerprint'' = PNone
   \<and> current_rotated saved_world app_log_1 = PNone
   \<and> dict_get_default reloaded_state ''offset'' (PInt 0) = PInt 28
   \<and> \<not> int (length (content (plain_file [1, 100] three_lines))) < 28
   \<and> rotation_branch saved_world app_log app_log_1 reloaded_state = MoveCreate
   \<and> fst (detect_and_handle saved_world app_log app_log_1 reloaded_state) = Inr 0"
proof -
  have a: "load_state saved_world app_state_file = Inr reloaded_state" by code_simp
  have b: "files saved_world app_log = Some (plain_file [1, 100] three_lines)" by code_simp
  have c: "identity_numbers (dict_get reloaded_state ''fingerprint'') = Some [1, 100]"
    by (simp add: identity_numbers_def dict_get_def reloaded_state_def)
  have d: "identity_numbers (get_file_fingerprint saved_world app_log) = Some [1, 100]"
    by code_simp
  have e: "dict_get reloaded_state ''rotated_fingerprint'' = PNone"
    by (simp add: dict_get_def reloaded_state_def)
  have f: "current_rotated saved_world app_log_1 = PNone" by code_simp
  have g: "dict_get_default reloaded_state ''offset'' (PInt 0) = PInt 28"
    by (simp add: dict_get_default_def reloaded_state_def)
  have h: "\<not> int (length (content (plain_file [1, 100] three_lines))) < 28"
    by (simp add: plain_file_def length_three_lines)
  have i: "rotation_branch saved_world app_log app_log_1 reloaded_state = MoveCreate"
    by code_simp
  have j: "fst (detect_and_handle saved_world app_log app_log_1 reloaded_state) = Inr 0"
    by code_simp
  from a b c d e f g h i j show ?thesis by blast
qed

section \<open>The tailer\<close>





section \<open>The observer's failure paths\<close>

text \<open>
  C6, as the specification states it: when the target file does not exist, the
  observation's metadata has status "not found". The status text that \<^verbatim>\<open>observe\<close> returns
  is "file not found".
\<close>

theorem missing_file_status_text:
  "files (posix_world Map.empty) (log_file fresh_observer) = None
   \<and> fst (observe literal_search fresh_observer (posix_world Map.empty))
       = Inr \<lparr>ovalue = False, metadata = [(''status'', MStr ''file not found'')]\<rparr>
   \<and> MStr ''file not found'' \<noteq> MStr ''not found''"
  by (simp add: observe_def posix_world_def)

text \<open>
  C6, amended: for every poll where the target file does not exist, \<^verbatim>\<open>observe\<close> returns
  an observation with value false and metadata status "file not found"; the observer's
  state dictionary and the file system, the saved state with it, are left as they were.
\<close>

theorem missing_file_observation:
  assumes "files w (log_file ob) = None"
  shows "observe search ob w
           = (Inr \<lparr>ovalue = False, metadata = [(''status'', MStr ''file not found'')]\<rparr>, ob, w)"
  using assms by (simp add: observe_def)

theorem missing_file_observation_witness:
  "files (posix_world Map.empty) (log_file (tracking_observer 28)) = None
   \<and> observe literal_search (tracking_observer 28) (posix_world Map.empty)
       = (Inr \<lparr>ovalue = False, metadata = [(''status'', MStr ''file not found'')]\<rparr>,
          tracking_observer 28, posix_world Map.empty)"
proof -
  have h: "files (posix_world Map.empty) (log_file (tracking_observer 28)) = None"
    by (simp add: posix_world_def)
  from missing_file_observation [OF h] h show ?thesis by blast
qed

text \<open>
  C7: for every poll where reading the file raises, \<^verbatim>\<open>observe\<close> returns an observation
  with value false and the error in its metadata, the file system (and so the saved state)
  is left as it was, and the offset in the state dictionary is the one that was stored.
\<close>

theorem read_failure_observation:
  assumes "files w (log_file ob) = Some f"
    and "detect_and_handle w (log_file ob) (rotated_log_file ob) (state ob) = (Inr off, st1)"
    and "read_new_lines f off = Inl e"
  shows "observe search ob w
           = (Inr \<lparr>ovalue = False, metadata = [(''error'', MErrText e)]\<rparr>, ob\<lparr>state := st1\<rparr>, w)
       \<and> map_of st1 ''offset'' = map_of (state ob) ''offset''"
proof -
  have "snd (detect_and_handle w lf rf st) = st1 \<Longrightarrow> map_of st1 ''offset'' = map_of st ''offset''"
    for lf rf st
    by (auto simp: detect_and_handle_def Let_def move_create_handle_def update_conv'
        split: if_splits)
  with assms(2) have "map_of st1 ''offset'' = map_of (state ob) ''offset''"
    by (metis snd_conv)
  with assms show ?thesis by (simp add: observe_def)
qed

theorem read_failure_observation_witness:
  "files unreadable_world (log_file (tracking_observer 5))
     = Some ((plain_file [1, 100] three_lines)\<lparr>fault := OpenFails\<rparr>)
   \<and> detect_and_handle unreadable_world (log_file (tracking_observer 5))
        (rotated_log_file (tracking_observer 5)) (state (tracking_observer 5))
       = (Inr 5, tracked_state 5 PNone)
   \<and> read_new_lines ((plain_file [1, 100] three_lines)\<lparr>fault := OpenFails\<rparr>) 5 = Inl OSError
   \<and> observe literal_search (tracking_observer 5) unreadable_world
       = (Inr \<lparr>ovalue = False, metadata = [(''error'', MErrText OSError)]\<rparr>,
          (tracking_observer 5)\<lparr>state := tracked_state 5 PNone\<rparr>, unreadable_world)
   \<and> map_of (tracked_state 5 PNone) ''offset'' = Some (PInt 5)"
proof -
  have h1: "files unreadable_world (log_file (tracking_observer 5))
              = Some ((plain_file [1, 100] three_lines)\<lparr>fault := OpenFails\<rparr>)"
    by (simp add: unreadable_world_def posix_world_def tracking_observer_def fresh_observer_def)
  have h2: "detect_and_handle unreadable_world (log_file (tracking_observer 5))
              (rotated_log_file (tracking_observer 5)) (state (tracking_observer 5))
              = (Inr 5, tracked_state 5 PNone)"
    by code_simp
  have h3: "read_new_lines ((plain_file [1, 100] three_lines)\<lparr>fault := OpenFails\<rparr>) 5
              = Inl OSError"
    by (simp add: read_new_lines_def open_file_def plain_file_def)
  have h4: "map_of (tracked_state 5 PNone) ''offset'' = Some (PInt 5)"
    by (simp add: tracked_state_def)
  from read_failure_observation [OF h1 h2 h3, of literal_search] h1 h2 h3 h4
  show ?thesis by blast
qed

section \<open>Loading the state\<close>

text \<open>
  C8, as the specification states it: whenever the persisted data is unreadable or
  corrupt, loading returns the defaults and raises nothing. \<^verbatim>\<open>_load_state\<close> catches
  JSONDecodeError and KeyError only: a state file that cannot be opened, whose bytes are
  not UTF-8, or whose JSON document is \<^verbatim>\<open>null\<close> makes it raise.
\<close>

theorem load_state_raises:
  "load_state (state_file_world Unopenable) app_state_file = Inl OSError
   \<and> load_state (state_file_world Undecodable) app_state_file = Inl UnicodeDecodeError
   \<and> load_state (state_file_world (Document JNull)) app_state_file = Inl TypeError"
  by (simp add: load_state_def load_body_def json_load_def state_file_world_def)

text \<open>
  C8, amended: loading returns the all-defaults state when no state file exists or when
  the file's text is not valid JSON, and returns the persisted JSON object, with a
  \<^verbatim>\<open>rotated_fingerprint\<close> of \<^verbatim>\<open>None\<close> appended if that key is absent, when the file holds
  one.
\<close>

theorem load_state_defaults:
  "(state_files w sf = None \<or> state_files w sf = Some Malformed
      \<longrightarrow> load_state w sf = Inr default_state)
   \<and> (state_files w sf = Some (Document (JObject st))
      \<longrightarrow> load_state w sf
          = Inr (if map_of st ''rotated_fingerprint'' = None
                 then st @ [(''rotated_fingerprint'', PNone)] else st))"
proof -
  have "map_of st k = None \<Longrightarrow> AList.update k v st = st @ [(k, v)]" for k v
    by (induction st) auto
  then show ?thesis
    by (auto simp: load_state_def load_body_def json_load_def)
qed

theorem load_state_defaults_witness:
  "state_files (state_file_world Malformed) app_state_file = Some Malformed
   \<and> load_state (state_file_world Malformed) app_state_file = Inr default_state
   \<and> state_files fresh_world app_state_file = None
   \<and> load_state fresh_world app_state_file = Inr default_state
   \<and> state_files (state_file_world (Document (JObject old_format_state))) app_state_file
       = Some (Document (JObject old_format_state))
   \<and> load_state (state_file_world (Document (JObject old_format_state))) app_state_file
       = Inr [(''fingerprint'', PList [1, 100]), (''offset'', PInt 28),
              (''rotated_fingerprint'', PNone)]"
proof -
  have h1: "state_files (state_file_world s) app_state_file = Some s" for s
    by (simp add: state_file_world_def)
  have h2: "state_files fresh_world app_state_file = None"
    by (simp add: fresh_world_def posix_world_def)
  have h3: "map_of old_format_state ''rotated_fingerprint'' = None"
    by (simp add: old_format_state_def)
  from load_state_defaults [of "state_file_world Malformed" app_state_file]
       load_state_defaults [of fresh_world app_state_file]
       load_state_defaults [of "state_file_world (Document (JObject old_format_state))"
                               app_state_file old_format_state]
       h1 h2 h3
  show ?thesis by (simp add: old_format_state_def)
qed

section \<open>The concrete scenario\<close>

lemma first_poll_result:
  "fst first_poll
     = Inr \<lparr>ovalue = True,
            metadata = [(''matched_lines'', MLines [''ERROR: line 2'']),
                        (''log_file'', MStr app_log)]\<rparr>"
  by code_simp

lemma first_poll_state: "state (fst (snd first_poll)) = tracked_state 28 PNone"
  by code_simp

lemma first_poll_saved:
  "state_files (snd (snd first_poll)) app_state_file
     = Some (Document (JObject [(''fingerprint'', PList [1, 100]), (''offset'', PInt 28),
                                 (''rotated_fingerprint'', PNone)]))"
  by code_simp

lemma second_poll_result:
  "fst second_poll
     = Inr \<lparr>ovalue = True,
            metadata = [(''matched_lines'', MLines [''ERROR: line 4'']),
                        (''log_file'', MStr app_log)]\<rparr>"
  by code_simp

lemma second_poll_state: "state (fst (snd second_poll)) = tracked_state 42 PNone"
  by code_simp

text \<open>
  C9, as the specification states it: after the first poll of the file
  \<^verbatim>\<open>"line 1\nERROR: line 2\nline 3\n"\<close> the persisted offset is end-of-file, namely 29.
  The file has 28 bytes, and 28 is the offset that is stored and saved.
\<close>

theorem first_poll_offset_is_28:
  "content (plain_file [1, 100] three_lines) = ''line 1\<newline>ERROR: line 2\<newline>line 3\<newline>''
   \<and> length (content (plain_file [1, 100] three_lines)) = 28
   \<and> dict_get (state (fst (snd first_poll))) ''offset'' = PInt 28
   \<and> dict_get (state (fst (snd first_poll))) ''offset'' \<noteq> PInt 29
   \<and> state_files (snd (snd first_poll)) app_state_file
       \<noteq> Some (Document (JObject [(''fingerprint'', PList [1, 100]), (''offset'', PInt 29),
                                   (''rotated_fingerprint'', PNone)]))"
  by (simp add: first_poll_state first_poll_saved tracked_state_get(1) dict_get_def
      tracked_state_def plain_file_def three_lines_def)

text \<open>
  C9, amended: for a fresh target whose file contains
  \<^verbatim>\<open>"line 1\nERROR: line 2\nline 3\n"\<close> and whose only pattern is \<^verbatim>\<open>ERROR\<close>, the first
  \<^verbatim>\<open>observe\<close> returns value true with matched lines \<^verbatim>\<open>["ERROR: line 2"]\<close>, and the offset
  stored and saved is end-of-file, namely 28; after \<^verbatim>\<open>"ERROR: line 4\n"\<close> is appended, the
  next \<^verbatim>\<open>observe\<close> of the same observer returns value true with matched lines
  \<^verbatim>\<open>["ERROR: line 4"]\<close> only, and the offset becomes 42.
\<close>

theorem concrete_scenario:
  "new_observer app_config fresh_world = Inr fresh_observer
   \<and> files fresh_world (log_file fresh_observer)
       = Some (plain_file [1, 100] ''line 1\<newline>ERROR: line 2\<newline>line 3\<newline>'')
   \<and> fst first_poll
       = Inr \<lparr>ovalue = True,
              metadata = [(''matched_lines'', MLines [''ERROR: line 2'']),
                          (''log_file'', MStr app_log)]\<rparr>
   \<and> dict_get (state (fst (snd first_poll))) ''offset'' = PInt 28
   \<and> state_files (snd (snd first_poll)) app_state_file
       = Some (Document (JObject [(''fingerprint'', PList [1, 100]), (''offset'', PInt 28),
                                   (''rotated_fingerprint'', PNone)]))
   \<and> fst second_poll
       = Inr \<lparr>ovalue = True,
              metadata = [(''matched_lines'', MLines [''ERROR: line 4'']),
                          (''log_file'', MStr app_log)]\<rparr>
   \<and> dict_get (state (fst (snd second_poll))) ''offset'' = PInt 42"
  by (simp add: new_observer_fresh first_poll_result first_poll_state first_poll_saved
      second_poll_result second_poll_state dict_get_def tracked_state_def fresh_world_app_log
      fresh_observer_def three_lines_def [symmetric])

text \<open>
  The second poll above is by the observer that made the first one, whose state dictionary
  still holds the fingerprint as a tuple. An observer created anew reads the saved
  fingerprint back as a list, which is not equal to the tuple of the current identity: it
  takes the move/create branch and reads the file from the start again.
\<close>

lemma restarted_poll_result:
  "fst restarted_poll
     = Inr \<lparr>ovalue = True,
            metadata = [(''matched_lines'', MLines [''ERROR: line 2'', ''ERROR: line 4'']),
                        (''log_file'', MStr app_log)]\<rparr>"
  by code_simp

section \<open>What a matched line is\<close>

lemma strip_no_leading_space:
  assumes "strip s = c # t"
  shows "\<not> py_isspace c"
proof -
  define t0 where "t0 = dropWhile py_isspace s"
  define u0 where "u0 = dropWhile py_isspace (rev t0)"
  have s: "strip s = rev u0" by (simp add: strip_def t0_def u0_def)
  have "rev t0 = takeWhile py_isspace (rev t0) @ u0" by (simp add: u0_def)
  then have "rev (rev t0) = rev (takeWhile py_isspace (rev t0) @ u0)" by (rule arg_cong)
  then obtain x where "t0 = rev u0 @ x" by simp
  with s assms have t0: "t0 = c # t @ x" by simp
  then have "hd (dropWhile py_isspace s) = c" and "dropWhile py_isspace s \<noteq> []"
    by (simp_all add: t0_def)
  then show ?thesis by (metis hd_dropWhile)
qed

lemma strip_no_trailing_space:
  assumes "strip s = t @ [c]"
  shows "\<not> py_isspace c"
proof -
  define u0 where "u0 = dropWhile py_isspace (rev (dropWhile py_isspace s))"
  have "strip s = rev u0" by (simp add: strip_def u0_def)
  with assms have "rev (rev u0) = rev (t @ [c])" by simp
  then have "u0 = c # rev t" by simp
  then have "hd (dropWhile py_isspace (rev (dropWhile py_isspace s))) = c"
    and "dropWhile py_isspace (rev (dropWhile py_isspace s)) \<noteq> []"
    by (simp_all add: u0_def)
  then show ?thesis by (metis hd_dropWhile)
qed

lemma match_lines_from:
  "match_lines search ps acc lines = Inr ms \<Longrightarrow> m \<in> set ms
     \<Longrightarrow> m \<in> set acc \<or> (\<exists>l \<in> set lines. m = strip l)"
proof (induction lines arbitrary: acc)
  case Nil
  then show ?case by simp
next
  case (Cons l ls)
  show ?case
  proof (cases "any_pattern search ps l")
    case (Inl e)
    with Cons.prems show ?thesis by simp
  next
    case (Inr b)
    show ?thesis
    proof (cases b)
      case True
      with Inr Cons.prems have "match_lines search ps (acc @ [strip l]) ls = Inr ms" by simp
      from Cons.IH [OF this Cons.prems(2)] show ?thesis by auto
    next
      case False
      with Inr Cons.prems have "match_lines search ps acc ls = Inr ms" by simp
      from Cons.IH [OF this Cons.prems(2)] show ?thesis by auto
    qed
  qed
qed

lemma observe_matched_lines:
  assumes "observe search ob w = (Inr r, ob', w')"
    and "map_of (metadata r) ''matched_lines'' = Some (MLines ms)"
  shows "\<exists>f off st1 lines n.
           files w (log_file ob) = Some f
         \<and> detect_and_handle w (log_file ob) (rotated_log_file ob) (state ob) = (Inr off, st1)
         \<and> read_new_lines f off = Inr (lines, n)
         \<and> match_lines search (patterns ob) [] lines = Inr ms"
  using assms
  by (auto simp: observe_def Let_def split: option.splits sum.splits prod.splits if_splits)

text \<open>
  C10: every string among the matched lines of an observation is \<^const>\<open>strip\<close> of a line
  that was read: it does not end in a newline, and it neither begins nor ends with a
  whitespace character, space and tab among them.
\<close>

theorem matched_lines_are_stripped:
  assumes "observe search ob w = (Inr r, ob', w')"
    and "map_of (metadata r) ''matched_lines'' = Some (MLines ms)"
    and "m \<in> set ms"
  shows "(\<exists>f off st1 lines n.
            files w (log_file ob) = Some f
          \<and> detect_and_handle w (log_file ob) (rotated_log_file ob) (state ob) = (Inr off, st1)
          \<and> read_new_lines f off = Inr (lines, n)
          \<and> (\<exists>l \<in> set lines. m = strip l))
       \<and> (\<forall>t. m \<noteq> t @ [LF])
       \<and> (\<forall>c t. py_isspace c \<longrightarrow> m \<noteq> c # t \<and> m \<noteq> t @ [c])
       \<and> py_isspace (CHR '' '') \<and> py_isspace (CHR 0x09) \<and> py_isspace LF"
proof -
  from observe_matched_lines [OF assms(1,2)] obtain f off st1 lines n where
    f: "files w (log_file ob) = Some f" and
    d: "detect_and_handle w (log_file ob) (rotated_log_file ob) (state ob) = (Inr off, st1)" and
    r: "read_new_lines f off = Inr (lines, n)" and
    ml: "match_lines search (patterns ob) [] lines = Inr ms"
    by blast
  from match_lines_from [OF ml assms(3)] obtain l where l: "l \<in> set lines" "m = strip l"
    by auto
  have sp: "py_isspace (CHR '' '')" "py_isspace (CHR 0x09)" "py_isspace LF"
    by (simp_all add: py_isspace_def LF_def)
  have edge: "\<forall>c t. py_isspace c \<longrightarrow> m \<noteq> c # t \<and> m \<noteq> t @ [c]"
    using strip_no_leading_space [of l] strip_no_trailing_space [of l] l(2) by metis
  from edge sp(3) have "\<forall>t. m \<noteq> t @ [LF]" by blast
  with f d r l edge sp show ?thesis by blast
qed

lemma padded_poll:
  "fst (observe literal_search fresh_observer padded_world)
     = Inr \<lparr>ovalue = True,
            metadata = [(''matched_lines'', MLines [''ERROR: disk full'']),
                        (''log_file'', MStr app_log)]\<rparr>"
  by code_simp

theorem matched_lines_are_stripped_witness:
  "fst (observe literal_search fresh_observer padded_world)
     = Inr \<lparr>ovalue = True,
            metadata = [(''matched_lines'', MLines [''ERROR: disk full'']),
                        (''log_file'', MStr app_log)]\<rparr>
   \<and> read_new_lines (plain_file [1, 100] ''  ERROR: disk full \<newline>'') 0
       = Inr ([''  ERROR: disk full \<newline>''], 20)
   \<and> strip ''  ERROR: disk full \<newline>'' = ''ERROR: disk full''
   \<and> ''ERROR: disk full'' \<noteq> ''ERROR: disk ful'' @ [LF]
   \<and> py_isspace LF"
proof -
  obtain r ob' w' where o: "observe literal_search fresh_observer padded_world = (r, ob', w')"
    by (cases "observe literal_search fresh_observer padded_world")
  with padded_poll have h1: "observe literal_search fresh_observer padded_world
              = (Inr \<lparr>ovalue = True,
                      metadata = [(''matched_lines'', MLines [''ERROR: disk full'']),
                                  (''log_file'', MStr app_log)]\<rparr>, ob', w')"
    by simp
  have h2: "map_of (metadata \<lparr>ovalue = True,
                      metadata = [(''matched_lines'', MLines [''ERROR: disk full'']),
                                  (''log_file'', MStr app_log)]\<rparr>) ''matched_lines''
              = Some (MLines [''ERROR: disk full''])"
    by simp
  have h3: "''ERROR: disk full'' \<in> set [''ERROR: disk full'']" by simp
  have rd: "read_new_lines (plain_file [1, 100] ''  ERROR: disk full \<newline>'') 0
              = Inr ([''  ERROR: disk full \<newline>''], 20)"
    by code_simp
  have st: "strip ''  ERROR: disk full \<newline>'' = ''ERROR: disk full''"
    by code_simp
  from matched_lines_are_stripped [OF h1 h2 h3]
  have "''ERROR: disk full'' \<noteq> ''ERROR: disk ful'' @ [LF]" and "py_isspace LF"
    by blast+
  with padded_poll rd st show ?thesis by blast
qed

end
